theory Spec2Isabelle
  imports Main "HOL-Library.AList"
begin

section \<open>The digest module of zerver: data model\<close>

text \<open>
  The module \<^verbatim>\<open>zerver/lib/digest.py\<close> reads four tables of the store through the
  ORM. Only the columns the module reads are kept. A foreign key is the referenced
  row itself (the module only ever follows it), a realm is its primary key, and a
  \<^verbatim>\<open>datetime\<close> is a number of seconds since the epoch.
\<close>

type_synonym timestamp = int

datatype recipient_type = PERSONAL | STREAM | HUDDLE

record user_profile =
  up_id :: nat
  up_realm :: nat
  date_joined :: timestamp
  is_bot :: bool
  full_name :: string
  email :: string

record recipient =
  recipient_id :: nat
  recipient_type :: recipient_type
  type_id :: nat

record message =
  sender :: user_profile
  recipient :: recipient
  subject :: string
  pub_date :: timestamp
  content :: string

record user_message =
  um_user_profile :: user_profile
  message :: message

record stream =
  stream_name :: string
  stream_realm :: nat
  date_created :: timestamp

record subscription =
  sub_user_profile :: user_profile
  sub_recipient :: recipient
  active :: bool
  in_home_view :: bool

record store =
  user_profiles :: "user_profile list"
  streams :: "stream list"
  user_messages :: "user_message list"
  subscriptions :: "subscription list"

section \<open>Python containers\<close>

text \<open>
  A \<^verbatim>\<open>defaultdict\<close> is an association list with one entry per key, kept in the
  order of first insertion; reading a missing key gives the default. Python 2 iterates a
  dict and a set in the order of their hash slots, which the language leaves
  unspecified: \<open>dict_items\<close> and \<open>set_list\<close> take the slot of each element as a
  parameter and list the elements by slot, elements of one slot in insertion order.
  Every iteration order of a given dict is the order of some slot function, and the
  constant slot function gives insertion order.
\<close>

type_synonym conversation_key = "nat \<times> string"

definition defaultdict_get :: "'v \<Rightarrow> ('k \<times> 'v) list \<Rightarrow> 'k \<Rightarrow> 'v" where
  "defaultdict_get dflt d k = (case map_of d k of None \<Rightarrow> dflt | Some v \<Rightarrow> v)"

definition set_add :: "'a \<Rightarrow> 'a list \<Rightarrow> 'a list" where
  "set_add x xs = (if x \<in> set xs then xs else xs @ [x])"

definition dict_items :: "('k \<Rightarrow> nat) \<Rightarrow> ('k \<times> 'v) list \<Rightarrow> ('k \<times> 'v) list" where
  "dict_items slot d = sort_key (\<lambda>entry. slot (fst entry)) d"

definition set_list :: "('a \<Rightarrow> nat) \<Rightarrow> 'a list \<Rightarrow> 'a list" where
  "set_list slot xs = sort_key slot xs"

text \<open>
  \<^verbatim>\<open>list.sort(key=f, reverse=True)\<close> is stable: entries of equal key keep their
  order. That is the stable ascending sort on the negated key.
\<close>

definition sort_reverse :: "('a \<Rightarrow> nat) \<Rightarrow> 'a list \<Rightarrow> 'a list" where
  "sort_reverse f xs = sort_key (\<lambda>x. - int (f x)) xs"

section \<open>gather\_hot\_conversations\<close>

text \<open>
  The collaborators the module imports from elsewhere are parameters:
  \<open>build_message_list\<close> and \<open>hashchange_encode\<close> of \<^verbatim>\<open>zerver.lib.actions\<close>,
  the template loader's \<open>render_to_string\<close>, and the two slot functions of the
  Python runtime. \<open>'r\<close> is the type of one rendered message block.
\<close>

record 'r teaser_data =
  participants :: "string list"
  count :: int
  first_few_messages :: "'r list"

record new_streams_payload =
  html :: "string list"
  plain :: "string list"

record 'r template_payload =
  name :: string
  unread_pms :: "'r list"
  remaining_unread_pms_count :: int
  hot_conversations :: "'r teaser_data list option"
  new_streams :: new_streams_payload
  new_streams_count :: nat
  new_users :: "string list"

record 'r env =
  build_message_list :: "user_profile \<Rightarrow> message list \<Rightarrow> 'r list"
  hashchange_encode :: "string \<Rightarrow> string"
  render_to_string :: "string \<Rightarrow> 'r template_payload \<Rightarrow> string"
  key_slot :: "conversation_key \<Rightarrow> nat"
  name_slot :: "string \<Rightarrow> nat"

definition conversation_key :: "user_message \<Rightarrow> conversation_key" where
  "conversation_key um = (type_id (recipient (message um)), subject (message um))"

text \<open>Lines 31 to 36: one pass of the loop that fills the two dictionaries.\<close>

definition tally ::
  "(conversation_key \<times> nat) list \<times> (conversation_key \<times> string list) list \<Rightarrow> user_message \<Rightarrow>
   (conversation_key \<times> nat) list \<times> (conversation_key \<times> string list) list" where
  "tally acc um =
     (let key = conversation_key um;
          conversation_length = fst acc;
          conversation_diversity = snd acc
      in (AList.update key (defaultdict_get 0 conversation_length key + 1) conversation_length,
          AList.update key
            (set_add (full_name (sender (message um))) (defaultdict_get [] conversation_diversity key))
            conversation_diversity))"

definition conversation_length :: "user_message list \<Rightarrow> (conversation_key \<times> nat) list" where
  "conversation_length stream_messages = fst (foldl tally ([], []) stream_messages)"

definition conversation_diversity :: "user_message list \<Rightarrow> (conversation_key \<times> string list) list" where
  "conversation_diversity stream_messages = snd (foldl tally ([], []) stream_messages)"

text \<open>Lines 38 to 42: the two rankings.\<close>

definition diversity_list ::
  "(conversation_key \<Rightarrow> nat) \<Rightarrow> user_message list \<Rightarrow> (conversation_key \<times> string list) list" where
  "diversity_list slot stream_messages =
     sort_reverse (\<lambda>entry. length (snd entry)) (dict_items slot (conversation_diversity stream_messages))"

definition length_list ::
  "(conversation_key \<Rightarrow> nat) \<Rightarrow> user_message list \<Rightarrow> (conversation_key \<times> nat) list" where
  "length_list slot stream_messages =
     sort_reverse (\<lambda>entry. snd entry) (dict_items slot (conversation_length stream_messages))"

text \<open>
  Lines 47 to 51: the loop over the length ranking. The test on the size comes after
  the append, in every pass.
\<close>

fun fill_hot :: "'k list \<Rightarrow> 'k list \<Rightarrow> 'k list" where
  "fill_hot hot [] = hot"
| "fill_hot hot (candidate # rest) =
     (let hot' = (if candidate \<notin> set hot then hot @ [candidate] else hot)
      in if length hot' \<ge> 4 then hot' else fill_hot hot' rest)"

definition hot_conversation_keys :: "(conversation_key \<Rightarrow> nat) \<Rightarrow> user_message list \<Rightarrow> conversation_key list" where
  "hot_conversation_keys slot stream_messages =
     fill_hot (map fst (take 2 (diversity_list slot stream_messages)))
              (map fst (length_list slot stream_messages))"

text \<open>
  Lines 55 to 68: the body of the payload loop for one selected key. The second query
  on \<open>stream_messages\<close> is the same rows filtered again, in the same order.
\<close>

definition teaser ::
  "'r env \<Rightarrow> user_profile \<Rightarrow> user_message list \<Rightarrow> conversation_key \<Rightarrow> 'r teaser_data" where
  "teaser env user_profile stream_messages h =
     (let stream_id = fst h;
          subject' = snd h;
          users = set_list (name_slot env) (defaultdict_get [] (conversation_diversity stream_messages) h);
          count' = defaultdict_get 0 (conversation_length stream_messages) h;
          first_few = map message
            (take 2 (filter (\<lambda>um. type_id (recipient (message um)) = stream_id \<and>
                                   subject (message um) = subject') stream_messages))
      in \<lparr>participants = users,
          count = int count' - int (length first_few),
          first_few_messages = build_message_list env user_profile first_few\<rparr>)"

text \<open>
  Lines 53 to 71: the \<^verbatim>\<open>return\<close> is inside the body of the \<^verbatim>\<open>for\<close>, so the first
  pass returns the list built so far. With nothing to iterate the function ends without
  a \<^verbatim>\<open>return\<close>, and its value is Python's \<^verbatim>\<open>None\<close>, here \<open>None\<close>.
\<close>

fun payload_loop ::
  "'r env \<Rightarrow> user_profile \<Rightarrow> user_message list \<Rightarrow> 'r teaser_data list \<Rightarrow> conversation_key list \<Rightarrow>
   'r teaser_data list option" where
  "payload_loop env user_profile stream_messages payloads [] = None"
| "payload_loop env user_profile stream_messages payloads (h # rest) =
     Some (payloads @ [teaser env user_profile stream_messages h])"

definition gather_hot_conversations ::
  "'r env \<Rightarrow> user_profile \<Rightarrow> user_message list \<Rightarrow> 'r teaser_data list option" where
  "gather_hot_conversations env user_profile stream_messages =
     payload_loop env user_profile stream_messages []
       (hot_conversation_keys (key_slot env) stream_messages)"

text \<open>
  The two measures the rankings are stated in, as the specification words them: the
  number of messages of a conversation, and the number of distinct display names among
  its senders.
\<close>

definition message_count :: "user_message list \<Rightarrow> conversation_key \<Rightarrow> nat" where
  "message_count msgs k = length (filter (\<lambda>um. conversation_key um = k) msgs)"

definition sender_names :: "user_message list \<Rightarrow> conversation_key \<Rightarrow> string set" where
  "sender_names msgs k =
     set (map (\<lambda>um. full_name (sender (message um))) (filter (\<lambda>um. conversation_key um = k) msgs))"

definition distinct_senders :: "user_message list \<Rightarrow> conversation_key \<Rightarrow> nat" where
  "distinct_senders msgs k = card (sender_names msgs k)"

section \<open>gather\_new\_users and gather\_new\_streams\<close>

text \<open>Lines 76 to 78 and 84 to 85: the two queries, on a realm and a strict threshold.\<close>

definition new_users_query :: "store \<Rightarrow> user_profile \<Rightarrow> timestamp \<Rightarrow> user_profile list" where
  "new_users_query st user_profile threshold =
     filter (\<lambda>u. up_realm u = up_realm user_profile \<and> date_joined u > threshold \<and> is_bot u = False)
       (user_profiles st)"

definition gather_new_users :: "store \<Rightarrow> user_profile \<Rightarrow> timestamp \<Rightarrow> nat \<times> string list" where
  "gather_new_users st user_profile threshold =
     (let new_users = new_users_query st user_profile threshold;
          user_names = map full_name new_users
      in (length user_names, user_names))"

definition new_streams_query :: "store \<Rightarrow> user_profile \<Rightarrow> timestamp \<Rightarrow> stream list" where
  "new_streams_query st user_profile threshold =
     filter (\<lambda>s. stream_realm s = up_realm user_profile \<and> date_created s > threshold) (streams st)"

definition stream_link :: "'r env \<Rightarrow> stream \<Rightarrow> string" where
  "stream_link env s =
     (let base_url = ''https://zulip.com/#narrow/stream/'';
          narrow_url = base_url @ hashchange_encode env (stream_name s)
      in ''<a href='' @ [CHR 0x27] @ narrow_url @ [CHR 0x27] @ ''>'' @ stream_name s @ ''</a>'')"

definition gather_new_streams ::
  "'r env \<Rightarrow> store \<Rightarrow> user_profile \<Rightarrow> timestamp \<Rightarrow> nat \<times> new_streams_payload" where
  "gather_new_streams env st user_profile threshold =
     (let new_streams = new_streams_query st user_profile threshold;
          lists = foldl (\<lambda>acc s. (fst acc @ [stream_link env s], snd acc @ [stream_name s]))
                    ([], []) new_streams
      in (length new_streams, \<lparr>html = fst lists, plain = snd lists\<rparr>))"

section \<open>enough\_traffic\<close>

text \<open>
  Python tests the four arguments for truth: a list is true when it is not empty,
  \<^verbatim>\<open>None\<close> is false, a count is true when it is not zero. The second argument is the
  value of \<open>gather_hot_conversations\<close>, a list or \<^verbatim>\<open>None\<close>.
\<close>

definition truthy :: "'a list option \<Rightarrow> bool" where
  "truthy v = (case v of None \<Rightarrow> False | Some xs \<Rightarrow> xs \<noteq> [])"

definition enough_traffic :: "'a list \<Rightarrow> 'b list option \<Rightarrow> nat \<Rightarrow> nat \<Rightarrow> bool" where
  "enough_traffic unread_pms' hot_conversations' new_streams' new_users' =
     (if unread_pms' \<noteq> [] \<or> truthy hot_conversations' then True
      else if new_streams' \<noteq> 0 \<and> new_users' \<noteq> 0 then True
      else False)"

section \<open>handle\_digest\_email\<close>

datatype error = DoesNotExist | MultipleObjectsReturned | ValueError | TypeError | OverflowError

text \<open>
  \<^verbatim>\<open>UserProfile.objects.get(id=...)\<close> raises unless exactly one row matches.
\<close>

definition objects_get :: "store \<Rightarrow> nat \<Rightarrow> error + user_profile" where
  "objects_get st user_profile_id =
     (case filter (\<lambda>u. up_id u = user_profile_id) (user_profiles st) of
        [] \<Rightarrow> Inl DoesNotExist
      | [u] \<Rightarrow> Inr u
      | _ \<Rightarrow> Inl MultipleObjectsReturned)"

text \<open>
  The cutoff is what the caller hands over as epoch seconds, a Python value: an
  integer, a float, a string or \<^verbatim>\<open>None\<close>. A finite float is given by its
  mantissa and exponent, \<open>PyFloat m e\<close> for \<open>m * 2 ^ e\<close>, and \<^verbatim>\<open>int\<close>
  truncates it toward zero; \<^verbatim>\<open>int\<close> of a NaN raises \<^verbatim>\<open>ValueError\<close> and of
  an infinity \<^verbatim>\<open>OverflowError\<close>. Python 2 reads a string as an integer this way:
  white space, an optional sign, white space again, decimal digits, at least one, white
  space, and the end of the string; anything else raises \<^verbatim>\<open>ValueError\<close>. The
  value has no bound. \<^verbatim>\<open>int(None)\<close> raises \<^verbatim>\<open>TypeError\<close>.
\<close>

datatype pyval = PyInt int | PyFloat int int | PyNaN | PyInf | PyStr string | PyNone

definition float_trunc :: "int \<Rightarrow> int \<Rightarrow> int" where
  "float_trunc m e =
     (if 0 \<le> e then m * 2 ^ nat e
      else if 0 \<le> m then m div 2 ^ nat (- e)
      else - ((- m) div 2 ^ nat (- e)))"

definition is_space :: "char \<Rightarrow> bool" where
  "is_space c = (c \<in> set [CHR '' '', CHR 0x09, CHR 0x0A, CHR 0x0B, CHR 0x0C, CHR 0x0D])"

definition is_digit :: "char \<Rightarrow> bool" where
  "is_digit c = (48 \<le> (of_char c :: nat) \<and> (of_char c :: nat) \<le> 57)"

definition digits_value :: "string \<Rightarrow> int" where
  "digits_value ds = foldl (\<lambda>a c. 10 * a + int (of_char c - 48)) 0 ds"

definition int_literal :: "string \<Rightarrow> int option" where
  "int_literal s =
     (let t = dropWhile is_space s;
          signed = (case t of
                      [] \<Rightarrow> (1, [])
                    | c # r \<Rightarrow> if c = CHR ''-'' then (- 1, r)
                              else if c = CHR ''+'' then (1, r) else (1, t));
          body = dropWhile is_space (snd signed);
          digits = takeWhile is_digit body;
          rest = dropWhile is_space (dropWhile is_digit body)
      in if digits \<noteq> [] \<and> rest = []
         then Some (fst signed * digits_value digits) else None)"

definition py_int :: "pyval \<Rightarrow> error + int" where
  "py_int v =
     (case v of
        PyInt n \<Rightarrow> Inr n
      | PyFloat m e \<Rightarrow> Inr (float_trunc m e)
      | PyNaN \<Rightarrow> Inl ValueError
      | PyInf \<Rightarrow> Inl OverflowError
      | PyStr s \<Rightarrow> (case int_literal s of None \<Rightarrow> Inl ValueError | Some n \<Rightarrow> Inr n)
      | PyNone \<Rightarrow> Inl TypeError)"

text \<open>
  \<^verbatim>\<open>datetime.utcfromtimestamp\<close> takes its argument as a C double and raises
  \<^verbatim>\<open>OverflowError\<close> for an integer that rounds beyond the largest double; it
  raises \<^verbatim>\<open>ValueError\<close> outside the years 1 to 9999 (on a platform whose
  \<^verbatim>\<open>time_t\<close> has 64 bits). Inside these years the integer is the timestamp.
\<close>

definition utcfromtimestamp :: "int \<Rightarrow> error + timestamp" where
  "utcfromtimestamp n =
     (if 2 ^ 1024 - 2 ^ 970 \<le> \<bar>n\<bar> then Inl OverflowError
      else if - 62135596800 \<le> n \<and> n \<le> 253402300799 then Inr n
      else Inl ValueError)"

text \<open>
  Lines 115 to 117, 123 and 132 to 138: the queries of the orchestrator. The rows come
  ordered by \<open>pub_date\<close>; rows of one \<open>pub_date\<close> stay in the order of the
  store (the database leaves their order open). A filter on a foreign key compares
  primary keys.
\<close>

definition all_messages :: "store \<Rightarrow> user_profile \<Rightarrow> timestamp \<Rightarrow> user_message list" where
  "all_messages st user_profile cutoff =
     sort_key (\<lambda>um. pub_date (message um))
       (filter (\<lambda>um. up_id (um_user_profile um) = up_id user_profile \<and> pub_date (message um) > cutoff)
          (user_messages st))"

definition pms :: "store \<Rightarrow> user_profile \<Rightarrow> timestamp \<Rightarrow> user_message list" where
  "pms st user_profile cutoff =
     filter (\<lambda>um. recipient_type (recipient (message um)) \<noteq> STREAM)
       (all_messages st user_profile cutoff)"

definition home_view_recipients :: "store \<Rightarrow> user_profile \<Rightarrow> recipient list" where
  "home_view_recipients st user_profile =
     map sub_recipient
       (filter (\<lambda>sub. up_id (sub_user_profile sub) = up_id user_profile \<and> active sub \<and> in_home_view sub)
          (subscriptions st))"

definition stream_messages :: "store \<Rightarrow> user_profile \<Rightarrow> timestamp \<Rightarrow> user_message list" where
  "stream_messages st user_profile cutoff =
     filter (\<lambda>um. recipient_type (recipient (message um)) = STREAM \<and>
                  recipient_id (recipient (message um)) \<in>
                    set (map recipient_id (home_view_recipients st user_profile)))
       (all_messages st user_profile cutoff)"

text \<open>Lines 120 to 153: the payload handed to the templates.\<close>

definition template_payload ::
  "'r env \<Rightarrow> store \<Rightarrow> user_profile \<Rightarrow> timestamp \<Rightarrow> 'r template_payload" where
  "template_payload env st user_profile cutoff =
     (let pms_limit = 4 in
      \<lparr>name = full_name user_profile,
       unread_pms = build_message_list env user_profile
                      (map message (take pms_limit (pms st user_profile cutoff))),
       remaining_unread_pms_count = min 0 (int (length (pms st user_profile cutoff)) - int pms_limit),
       hot_conversations = gather_hot_conversations env user_profile
                             (stream_messages st user_profile cutoff),
       new_streams = snd (gather_new_streams env st user_profile cutoff),
       new_streams_count = fst (gather_new_streams env st user_profile cutoff),
       new_users = snd (gather_new_users st user_profile cutoff)\<rparr>)"

record addressee =
  addr_email :: string
  addr_name :: string

record future_email =
  recipients :: "addressee list"
  html_content :: string
  text_content :: string
  email_subject :: string
  delay :: int
  email_sender :: addressee
  tags :: "string list"

record world =
  store :: store
  outbox :: "future_email list"

text \<open>
  Modelled from the spec: \<open>send_future_email\<close> of \<^verbatim>\<open>zerver.lib.actions\<close>, the
  delivery collaborator \<^verbatim>\<open>send_email(recipients, html_body, text_body, subject,
  delay, sender, tags)\<close>, is not among the sources. It is fire and forget: the email
  joins the collaborator's outbox and nothing comes back.
\<close>

definition send_future_email :: "world \<Rightarrow> future_email \<Rightarrow> world" where
  "send_future_email w e = w\<lparr>outbox := outbox w @ [e]\<rparr>"

definition digest_email :: "'r env \<Rightarrow> store \<Rightarrow> user_profile \<Rightarrow> timestamp \<Rightarrow> future_email" where
  "digest_email env st user_profile cutoff =
     (let payload = template_payload env st user_profile cutoff in
      \<lparr>recipients = [\<lparr>addr_email = email user_profile, addr_name = full_name user_profile\<rparr>],
       html_content = render_to_string env ''zerver/emails/digest/digest_email_html.txt'' payload,
       text_content = render_to_string env ''zerver/emails/digest/digest_email.txt'' payload,
       email_subject = ''While you'' @ [CHR 0x27] @ ''ve been gone: the Zulip Digest'',
       delay = 0,
       email_sender = \<lparr>addr_email = ''support@zulip.com'', addr_name = ''Zulip Support''\<rparr>,
       tags = [''digest-emails'']\<rparr>)"

text \<open>
  The function itself. Its value is the pair of how the call ends (an exception that
  reaches the caller, or a plain return) and the world it leaves behind.
\<close>

definition handle_digest_email ::
  "'r env \<Rightarrow> world \<Rightarrow> nat \<Rightarrow> pyval \<Rightarrow> (error + unit) \<times> world" where
  "handle_digest_email env w user_profile_id cutoff =
     (case objects_get (store w) user_profile_id of
        Inl e \<Rightarrow> (Inl e, w)
      | Inr user_profile \<Rightarrow>
          (case py_int cutoff of
             Inl e \<Rightarrow> (Inl e, w)
           | Inr seconds \<Rightarrow>
               (case utcfromtimestamp seconds of
                  Inl e \<Rightarrow> (Inl e, w)
                | Inr cutoff' \<Rightarrow>
                    (let payload = template_payload env (store w) user_profile cutoff';
                         new_streams_count' = fst (gather_new_streams env (store w) user_profile cutoff');
                         new_users_count = fst (gather_new_users (store w) user_profile cutoff')
                     in if enough_traffic (unread_pms payload) (hot_conversations payload)
                             new_streams_count' new_users_count
                        then (Inr (), send_future_email w (digest_email env (store w) user_profile cutoff'))
                        else (Inr (), w)))))"

section \<open>Sample data\<close>

text \<open>
  A small realm for the concrete instances below: alice receives the digest; bob joins
  after the cutoff 1000, carol exactly at it, dave before it; there is a bot and a user
  of another realm.
\<close>

definition alice :: user_profile where
  "alice = \<lparr>up_id = 1, up_realm = 1, date_joined = 100, is_bot = False,
            full_name = ''Alice'', email = ''alice@example.com''\<rparr>"

definition bob :: user_profile where
  "bob = \<lparr>up_id = 2, up_realm = 1, date_joined = 2000, is_bot = False,
          full_name = ''Bob'', email = ''bob@example.com''\<rparr>"

definition carol :: user_profile where
  "carol = \<lparr>up_id = 3, up_realm = 1, date_joined = 1000, is_bot = False,
            full_name = ''Carol'', email = ''carol@example.com''\<rparr>"

definition dave :: user_profile where
  "dave = \<lparr>up_id = 4, up_realm = 1, date_joined = 500, is_bot = False,
           full_name = ''Dave'', email = ''dave@example.com''\<rparr>"

definition robot :: user_profile where
  "robot = \<lparr>up_id = 5, up_realm = 1, date_joined = 3000, is_bot = True,
            full_name = ''Robot'', email = ''robot@example.com''\<rparr>"

definition mallory :: user_profile where
  "mallory = \<lparr>up_id = 6, up_realm = 2, date_joined = 3000, is_bot = False,
              full_name = ''Mallory'', email = ''mallory@example.org''\<rparr>"

definition dev :: recipient where
  "dev = \<lparr>recipient_id = 10, recipient_type = STREAM, type_id = 7\<rparr>"

definition ops :: recipient where
  "ops = \<lparr>recipient_id = 11, recipient_type = STREAM, type_id = 8\<rparr>"

definition to_alice :: recipient where
  "to_alice = \<lparr>recipient_id = 12, recipient_type = PERSONAL, type_id = 1\<rparr>"

definition received :: "user_profile \<Rightarrow> recipient \<Rightarrow> string \<Rightarrow> timestamp \<Rightarrow> user_message" where
  "received from to subj at =
     \<lparr>um_user_profile = alice,
      message = \<lparr>sender = from, recipient = to, subject = subj, pub_date = at, content = subj\<rparr>\<rparr>"

definition five_conversations :: "user_message list" where
  "five_conversations =
     [received bob dev ''lunch'' 1001, received bob dev ''lunch'' 1002,
      received bob dev ''deploy'' 1003, received bob ops ''outage'' 1004,
      received carol dev ''deploy'' 1005, received carol ops ''outage'' 1006,
      received bob ops ''misc'' 1007, received dave ops ''outage'' 1008,
      received carol dev ''party'' 1009, received bob dev ''lunch'' 1010,
      received carol dev ''party'' 1011]"

definition two_conversations :: "user_message list" where
  "two_conversations = [received bob dev ''lunch'' 1001, received carol ops ''outage'' 1002]"

definition five_pms :: "user_message list" where
  "five_pms =
     [received bob to_alice ''hi'' 1101, received bob to_alice ''hi'' 1102,
      received carol to_alice ''hi'' 1103, received dave to_alice ''hi'' 1104,
      received bob to_alice ''hi'' 1105]"

definition sample_env :: "string env" where
  "sample_env =
     \<lparr>build_message_list = (\<lambda>u ms. map content ms),
      hashchange_encode = (\<lambda>s. s),
      render_to_string = (\<lambda>template payload. template),
      key_slot = fst,
      name_slot = (\<lambda>n. 0)\<rparr>"

definition busy_store :: store where
  "busy_store =
     \<lparr>user_profiles = [alice, bob, carol, dave, robot, mallory],
      streams = [\<lparr>stream_name = ''dev'', stream_realm = 1, date_created = 50\<rparr>,
                 \<lparr>stream_name = ''ops'', stream_realm = 1, date_created = 1500\<rparr>,
                 \<lparr>stream_name = ''old'', stream_realm = 1, date_created = 1000\<rparr>,
                 \<lparr>stream_name = ''far'', stream_realm = 2, date_created = 1500\<rparr>],
      user_messages = five_conversations @ five_pms,
      subscriptions = [\<lparr>sub_user_profile = alice, sub_recipient = dev, active = True, in_home_view = True\<rparr>,
                       \<lparr>sub_user_profile = alice, sub_recipient = ops, active = True, in_home_view = True\<rparr>]\<rparr>"

definition quiet_store :: store where
  "quiet_store =
     \<lparr>user_profiles = [alice, dave],
      streams = [\<lparr>stream_name = ''dev'', stream_realm = 1, date_created = 50\<rparr>],
      user_messages = [],
      subscriptions = [\<lparr>sub_user_profile = alice, sub_recipient = dev, active = True, in_home_view = True\<rparr>]\<rparr>"

definition busy_world :: world where
  "busy_world = \<lparr>store = busy_store, outbox = []\<rparr>"

definition quiet_world :: world where
  "quiet_world = \<lparr>store = quiet_store, outbox = []\<rparr>"

section \<open>Every iteration order is the order of some slots\<close>

text \<open>
  Whatever order Python lists the entries of a dict or the elements of a set in, some
  slot function gives that order in the model: nothing is lost by the parameter.
\<close>

lemma position_map:
  "distinct ks \<Longrightarrow> map (\<lambda>k. length (takeWhile (\<lambda>x. x \<noteq> k) ks)) ks = [0..<length ks]"
proof (induction ks)
  case Nil
  then show ?case by simp
next
  case (Cons a ks)
  have "map (\<lambda>k. length (takeWhile (\<lambda>x. x \<noteq> k) (a # ks))) ks =
        map (\<lambda>k. Suc (length (takeWhile (\<lambda>x. x \<noteq> k) ks))) ks"
    using Cons.prems by (intro map_cong) auto
  also have "\<dots> = map Suc (map (\<lambda>k. length (takeWhile (\<lambda>x. x \<noteq> k) ks)) ks)"
    by simp
  also have "\<dots> = map Suc [0..<length ks]"
    using Cons by simp
  finally have tail: "map (\<lambda>k. length (takeWhile (\<lambda>x. x \<noteq> k) (a # ks))) ks =
                      map Suc [0..<length ks]" .
  have "[0..<length (a # ks)] = 0 # map Suc [0..<length ks]"
    by (simp add: map_Suc_upt upt_conv_Cons del: upt_Suc)
  then show ?case
    unfolding list.map tail by simp
qed

lemma sort_key_any_order:
  assumes "distinct (map (g :: 'a \<Rightarrow> 'k) xs)" and "set ys = set xs" and "length ys = length xs"
  shows "\<exists>slot :: 'k \<Rightarrow> nat. sort_key (\<lambda>x. slot (g x)) xs = ys"
proof -
  define slot where "slot k = length (takeWhile (\<lambda>x. x \<noteq> k) (map g ys))" for k
  have dxs: "distinct xs" using assms(1) by (rule distinct_map [THEN iffD1, THEN conjunct1])
  have dys: "distinct ys"
    using dxs assms(2,3) by (metis card_distinct distinct_card)
  have inj: "inj_on g (set ys)"
    using assms(1,2) by (simp add: distinct_map)
  have dgys: "distinct (map g ys)"
    using dys inj by (simp add: distinct_map)
  have keys: "map (\<lambda>x. slot (g x)) ys = [0..<length ys]"
    using position_map [OF dgys] by (simp add: slot_def comp_def)
  have inj_slot: "inj_on (\<lambda>x. slot (g x)) (set ys)"
    using keys by (metis distinct_map distinct_upt)
  let ?s = "sort_key (\<lambda>x. slot (g x)) xs"
  have "map (\<lambda>x. slot (g x)) ?s = map (\<lambda>x. slot (g x)) ys"
  proof (rule sorted_distinct_set_unique)
    show "sorted (map (\<lambda>x. slot (g x)) ?s)" by (rule sorted_sort_key)
    show "distinct (map (\<lambda>x. slot (g x)) ?s)"
      using dxs inj_slot assms(2) by (simp add: distinct_map)
    show "sorted (map (\<lambda>x. slot (g x)) ys)" unfolding keys by simp
    show "distinct (map (\<lambda>x. slot (g x)) ys)" unfolding keys by simp
    show "set (map (\<lambda>x. slot (g x)) ?s) = set (map (\<lambda>x. slot (g x)) ys)"
      using assms(2) by simp
  qed
  moreover have "inj_on (\<lambda>x. slot (g x)) (set ?s \<union> set ys)"
    using inj_slot assms(2) by simp
  ultimately have "?s = ys" by (simp add: inj_on_map_eq_map)
  then show ?thesis by (rule exI [of _ slot])
qed

lemma dict_items_any_order:
  "distinct (map fst d) \<Longrightarrow> set d' = set d \<Longrightarrow> length d' = length d \<Longrightarrow>
   \<exists>slot. dict_items slot d = d'"
  unfolding dict_items_def by (rule sort_key_any_order)

lemma set_list_any_order:
  "distinct xs \<Longrightarrow> set ys = set xs \<Longrightarrow> length ys = length xs \<Longrightarrow>
   \<exists>slot. set_list slot xs = ys"
  unfolding set_list_def using sort_key_any_order [of "\<lambda>x. x" xs ys] by simp

section \<open>Facts about the two dictionaries and the rankings\<close>


lemma defaultdict_get_update:
  "defaultdict_get d (AList.update k v al) k' = (if k' = k then v else defaultdict_get d al k')"
  by (simp add: defaultdict_get_def update_conv')

lemma conversation_length_snoc:
  "conversation_length (ms @ [m]) =
     AList.update (conversation_key m)
       (defaultdict_get 0 (conversation_length ms) (conversation_key m) + 1) (conversation_length ms)"
  by (simp add: conversation_length_def tally_def Let_def)

lemma conversation_diversity_snoc:
  "conversation_diversity (ms @ [m]) =
     AList.update (conversation_key m)
       (set_add (full_name (sender (message m)))
          (defaultdict_get [] (conversation_diversity ms) (conversation_key m)))
       (conversation_diversity ms)"
  by (simp add: conversation_diversity_def tally_def Let_def)

lemma conversation_length_Nil: "conversation_length [] = []"
  by (simp add: conversation_length_def)

lemma conversation_diversity_Nil: "conversation_diversity [] = []"
  by (simp add: conversation_diversity_def)

lemma keys_conversation_length:
  "fst ` set (conversation_length ms) = conversation_key ` set ms"
  by (induction ms rule: rev_induct)
     (auto simp: conversation_length_Nil conversation_length_snoc dom_update)

lemma keys_conversation_diversity:
  "fst ` set (conversation_diversity ms) = conversation_key ` set ms"
  by (induction ms rule: rev_induct)
     (auto simp: conversation_diversity_Nil conversation_diversity_snoc dom_update)

lemma distinct_conversation_length: "distinct (map fst (conversation_length ms))"
  by (induction ms rule: rev_induct)
     (simp_all add: conversation_length_Nil conversation_length_snoc distinct_update)

lemma distinct_conversation_diversity: "distinct (map fst (conversation_diversity ms))"
  by (induction ms rule: rev_induct)
     (simp_all add: conversation_diversity_Nil conversation_diversity_snoc distinct_update)

lemma defaultdict_get_Nil: "defaultdict_get d [] k = d"
  by (simp add: defaultdict_get_def)

lemma get_conversation_length:
  "defaultdict_get 0 (conversation_length ms) k = message_count ms k"
  by (induction ms arbitrary: k rule: rev_induct)
     (simp_all add: conversation_length_Nil conversation_length_snoc defaultdict_get_update
        message_count_def defaultdict_get_Nil)

lemma set_set_add: "set (set_add x xs) = insert x (set xs)"
  by (auto simp: set_add_def)

lemma distinct_set_add: "distinct xs \<Longrightarrow> distinct (set_add x xs)"
  by (simp add: set_add_def)

lemma get_conversation_diversity:
  "distinct (defaultdict_get [] (conversation_diversity ms) k) \<and>
   set (defaultdict_get [] (conversation_diversity ms) k) = sender_names ms k"
  by (induction ms arbitrary: k rule: rev_induct)
     (auto simp: conversation_diversity_Nil conversation_diversity_snoc defaultdict_get_update
        sender_names_def defaultdict_get_Nil set_set_add distinct_set_add)

lemma entry_defaultdict_get:
  "distinct (map fst d) \<Longrightarrow> (k, v) \<in> set d \<Longrightarrow> defaultdict_get dflt d k = v"
  by (simp add: defaultdict_get_def)

lemma entry_conversation_length:
  "e \<in> set (conversation_length ms) \<Longrightarrow> snd e = message_count ms (fst e)"
  using entry_defaultdict_get [OF distinct_conversation_length, of "fst e" "snd e" ms 0]
  by (simp add: get_conversation_length)

lemma entry_conversation_diversity:
  "e \<in> set (conversation_diversity ms) \<Longrightarrow> length (snd e) = distinct_senders ms (fst e)"
  using entry_defaultdict_get [OF distinct_conversation_diversity, of "fst e" "snd e" ms "[]"]
    get_conversation_diversity [of ms "fst e"]
  by (metis distinct_senders_def distinct_card prod.collapse)

lemma fill_hot_take:
  "distinct cs \<Longrightarrow> length hot < 4 \<Longrightarrow>
   fill_hot hot cs = hot @ take (4 - length hot) (filter (\<lambda>k. k \<notin> set hot) cs)"
proof (induction cs arbitrary: hot)
  case Nil
  then show ?case by simp
next
  case (Cons c cs)
  show ?case
  proof (cases "c \<in> set hot")
    case True
    with Cons show ?thesis by simp
  next
    case False
    have same: "filter (\<lambda>k. k \<noteq> c \<and> k \<notin> set hot) cs = filter (\<lambda>k. k \<notin> set hot) cs"
      using Cons.prems(1) by (auto intro: filter_cong)
    show ?thesis
    proof (cases "length hot = 3")
      case True
      with False show ?thesis by simp
    next
      case short: False
      with Cons.prems have "length (hot @ [c]) < 4" by simp
      with Cons.IH [of "hot @ [c]"] Cons.prems(1)
      have "fill_hot (hot @ [c]) cs =
              (hot @ [c]) @ take (4 - length (hot @ [c])) (filter (\<lambda>k. k \<notin> set hot) cs)"
        by (simp add: same)
      moreover have "4 - length hot = Suc (4 - length (hot @ [c]))"
        using Cons.prems(2) by simp
      ultimately show ?thesis using False short Cons.prems(2) by simp
    qed
  qed
qed


lemma distinct_map_sort_key: "distinct (map g (sort_key f xs)) = distinct (map g xs)"
  by (simp add: distinct_map)

lemma set_sort_reverse: "set (sort_reverse f xs) = set xs"
  by (simp add: sort_reverse_def)

lemma sorted_wrt_sort_reverse: "sorted_wrt (\<lambda>a b. f b \<le> f a) (sort_reverse f xs)"
proof -
  have "sorted (map (\<lambda>x. - int (f x)) (sort_key (\<lambda>x. - int (f x)) xs))"
    by (rule sorted_sort_key)
  then show ?thesis
    by (simp add: sort_reverse_def sorted_map)
qed

lemma set_diversity_list:
  "set (diversity_list slot msgs) = set (conversation_diversity msgs)"
  by (simp add: diversity_list_def dict_items_def set_sort_reverse)

lemma set_length_list:
  "set (length_list slot msgs) = set (conversation_length msgs)"
  by (simp add: length_list_def dict_items_def set_sort_reverse)

lemma keys_diversity_list:
  "set (map fst (diversity_list slot msgs)) = conversation_key ` set msgs"
  by (simp add: set_diversity_list keys_conversation_diversity)

lemma keys_length_list:
  "set (map fst (length_list slot msgs)) = conversation_key ` set msgs"
  by (simp add: set_length_list keys_conversation_length)

lemma distinct_diversity_list: "distinct (map fst (diversity_list slot msgs))"
  by (simp add: diversity_list_def dict_items_def sort_reverse_def distinct_map_sort_key
      distinct_conversation_diversity)

lemma distinct_length_list: "distinct (map fst (length_list slot msgs))"
  by (simp add: length_list_def dict_items_def sort_reverse_def distinct_map_sort_key
      distinct_conversation_length)

lemma sorted_diversity_list:
  "sorted_wrt (\<lambda>a b. distinct_senders msgs b \<le> distinct_senders msgs a)
     (map fst (diversity_list slot msgs))"
proof -
  have "sorted_wrt (\<lambda>a b. length (snd b) \<le> length (snd a)) (diversity_list slot msgs)"
    unfolding diversity_list_def by (rule sorted_wrt_sort_reverse)
  then have "sorted_wrt (\<lambda>a b. distinct_senders msgs (fst b) \<le> distinct_senders msgs (fst a))
               (diversity_list slot msgs)"
    by (rule sorted_wrt_mono_rel [rotated])
       (simp add: set_diversity_list entry_conversation_diversity)
  then show ?thesis by (simp add: sorted_wrt_map)
qed

lemma sorted_length_list:
  "sorted_wrt (\<lambda>a b. message_count msgs b \<le> message_count msgs a)
     (map fst (length_list slot msgs))"
proof -
  have "sorted_wrt (\<lambda>a b. snd b \<le> snd a) (length_list slot msgs)"
    unfolding length_list_def by (rule sorted_wrt_sort_reverse)
  then have "sorted_wrt (\<lambda>a b. message_count msgs (fst b) \<le> message_count msgs (fst a))
               (length_list slot msgs)"
    by (rule sorted_wrt_mono_rel [rotated])
       (simp add: set_length_list entry_conversation_length)
  then show ?thesis by (simp add: sorted_wrt_map)
qed

lemma length_filter_not_in:
  assumes "distinct xs" "distinct ys" "set ys \<subseteq> set xs"
  shows "length (filter (\<lambda>k. k \<notin> set ys) xs) = length xs - length ys"
proof -
  have "length (filter (\<lambda>k. k \<notin> set ys) xs) = card (set xs - set ys)"
    using assms(1) by (simp add: distinct_length_filter Diff_eq Int_commute Collect_neg_eq)
  also have "\<dots> = card (set xs) - card (set ys)"
    using assms(3) by (simp add: card_Diff_subset)
  finally show ?thesis using assms(1,2) by (simp add: distinct_card)
qed

lemma hot_conversation_keys_eq:
  "hot_conversation_keys slot msgs =
     take 2 (map fst (diversity_list slot msgs)) @
     take (4 - length (take 2 (map fst (diversity_list slot msgs))))
       (filter (\<lambda>k. k \<notin> set (take 2 (map fst (diversity_list slot msgs))))
          (map fst (length_list slot msgs)))"
  unfolding hot_conversation_keys_def take_map [symmetric]
  by (rule fill_hot_take) (simp_all add: distinct_length_list)

lemma length_rankings:
  "length (diversity_list slot msgs) = card (conversation_key ` set msgs)"
  "length (length_list slot msgs) = card (conversation_key ` set msgs)"
  using distinct_card [OF distinct_diversity_list, of slot msgs]
    distinct_card [OF distinct_length_list, of slot msgs]
  by (simp_all only: keys_diversity_list keys_length_list length_map)

lemma hot_conversation_keys_shape:
  "distinct (hot_conversation_keys slot msgs) \<and>
   length (hot_conversation_keys slot msgs) = min 4 (card (conversation_key ` set msgs))"
proof -
  let ?dl = "map fst (diversity_list slot msgs)"
  let ?ll = "map fst (length_list slot msgs)"
  let ?seed = "take 2 ?dl"
  let ?n = "card (conversation_key ` set msgs)"
  have d_dl: "distinct ?dl" and d_ll: "distinct ?ll"
    by (rule distinct_diversity_list, rule distinct_length_list)
  have d_seed: "distinct ?seed" using d_dl by (rule distinct_take)
  have sub: "set ?seed \<subseteq> set ?ll"
    using set_take_subset [of 2 ?dl]
    by (simp only: keys_diversity_list keys_length_list)
  have len_seed: "length ?seed = min 2 ?n"
    by (simp add: length_rankings min.commute)
  have len_rest: "length (filter (\<lambda>k. k \<notin> set ?seed) ?ll) = ?n - min 2 ?n"
    using length_filter_not_in [OF d_ll d_seed sub] len_seed
    by (simp add: length_rankings)
  have dist: "distinct (hot_conversation_keys slot msgs)"
    unfolding hot_conversation_keys_eq
    using d_seed d_ll by (auto dest: in_set_takeD)
  have len: "length (hot_conversation_keys slot msgs) = min 4 ?n"
    unfolding hot_conversation_keys_eq length_append length_take len_rest
    using len_seed by (simp add: length_rankings)
  show ?thesis using dist len by simp
qed

lemma hot_conversation_keys_nonempty:
  "msgs \<noteq> [] \<Longrightarrow> hot_conversation_keys slot msgs \<noteq> []"
proof -
  assume "msgs \<noteq> []"
  then have "conversation_key ` set msgs \<noteq> {}" by simp
  then have "0 < card (conversation_key ` set msgs)"
    by (simp add: card_gt_0_iff)
  with hot_conversation_keys_shape [of slot msgs] show ?thesis by auto
qed

text \<open>
  Claim C1. For every collection of stream message links and every iteration order of
  the dictionaries, the selected keys are: the first two entries (fewer if there are
  fewer) of the diversity ranking, followed by the entries of the length ranking in
  order, those already among the first two left out, up to a total of four. The
  diversity ranking lists every conversation key once, by number of distinct sender
  names, descending; the length ranking lists every key once, by number of messages,
  descending. The selection has no duplicate and its size is the smaller of 4 and the
  number of distinct conversation keys.
\<close>

theorem hot_conversations_selection:
  "hot_conversation_keys slot msgs =
     take 2 (map fst (diversity_list slot msgs)) @
     take (4 - length (take 2 (map fst (diversity_list slot msgs))))
       (filter (\<lambda>k. k \<notin> set (take 2 (map fst (diversity_list slot msgs))))
          (map fst (length_list slot msgs)))
   \<and> sorted_wrt (\<lambda>a b. distinct_senders msgs b \<le> distinct_senders msgs a)
        (map fst (diversity_list slot msgs))
   \<and> sorted_wrt (\<lambda>a b. message_count msgs b \<le> message_count msgs a)
        (map fst (length_list slot msgs))
   \<and> distinct (map fst (diversity_list slot msgs))
   \<and> distinct (map fst (length_list slot msgs))
   \<and> set (map fst (diversity_list slot msgs)) = conversation_key ` set msgs
   \<and> set (map fst (length_list slot msgs)) = conversation_key ` set msgs
   \<and> distinct (hot_conversation_keys slot msgs)
   \<and> length (hot_conversation_keys slot msgs) = min 4 (card (conversation_key ` set msgs))"
  using hot_conversation_keys_eq [of slot msgs] sorted_diversity_list [of msgs slot]
    sorted_length_list [of msgs slot] distinct_diversity_list [of slot msgs]
    distinct_length_list [of slot msgs] keys_diversity_list [of slot msgs]
    keys_length_list [of slot msgs] hot_conversation_keys_shape [of slot msgs]
  by blast

text \<open>
  An instance of C1: five conversations, listed by the slot of their stream. The two
  most diverse come first, the two longest that are left follow.
\<close>

theorem hot_conversations_selection_witness:
  "hot_conversation_keys fst five_conversations =
     [(8, ''outage''), (7, ''deploy''), (7, ''lunch''), (7, ''party'')]
   \<and> map fst (diversity_list fst five_conversations) =
     [(8, ''outage''), (7, ''deploy''), (7, ''lunch''), (7, ''party''), (8, ''misc'')]
   \<and> map fst (length_list fst five_conversations) =
     [(7, ''lunch''), (8, ''outage''), (7, ''deploy''), (7, ''party''), (8, ''misc'')]"
proof -
  have dl: "map fst (diversity_list fst five_conversations) =
     [(8, ''outage''), (7, ''deploy''), (7, ''lunch''), (7, ''party''), (8, ''misc'')]"
    by code_simp
  have ll: "map fst (length_list fst five_conversations) =
     [(7, ''lunch''), (8, ''outage''), (7, ''deploy''), (7, ''party''), (8, ''misc'')]"
    by code_simp
  from hot_conversations_selection [of fst five_conversations]
  have "hot_conversation_keys fst five_conversations =
     take 2 (map fst (diversity_list fst five_conversations)) @
     take (4 - length (take 2 (map fst (diversity_list fst five_conversations))))
       (filter (\<lambda>k. k \<notin> set (take 2 (map fst (diversity_list fst five_conversations))))
          (map fst (length_list fst five_conversations)))"
    by (rule conjunct1)
  then show ?thesis
    unfolding dl ll by simp
qed

section \<open>The payload loop\<close>

text \<open>
  Claim C3. The payload loop returns in its first pass: whenever the input holds at
  least one message, and so at least one conversation key, the value is a list of
  exactly one record, that of the first selected key, however many keys were selected.
\<close>

theorem gather_hot_conversations_first_only:
  "msgs \<noteq> [] \<Longrightarrow>
   \<exists>h rest. hot_conversation_keys (key_slot env) msgs = h # rest \<and>
     gather_hot_conversations env user msgs = Some [teaser env user msgs h]"
proof -
  assume "msgs \<noteq> []"
  then obtain h rest where "hot_conversation_keys (key_slot env) msgs = h # rest"
    using hot_conversation_keys_nonempty [of msgs "key_slot env"] by (auto simp: neq_Nil_conv)
  then show ?thesis by (simp add: gather_hot_conversations_def)
qed

text \<open>An instance of C3: four keys are selected and one record is returned.\<close>

theorem gather_hot_conversations_first_only_witness:
  "five_conversations \<noteq> [] \<and>
   length (hot_conversation_keys (key_slot sample_env) five_conversations) = 4 \<and>
   gather_hot_conversations sample_env alice five_conversations =
     Some [teaser sample_env alice five_conversations (8, ''outage'')]"
proof -
  have ne: "five_conversations \<noteq> []" by (simp add: five_conversations_def)
  have keys: "hot_conversation_keys (key_slot sample_env) five_conversations =
     [(8, ''outage''), (7, ''deploy''), (7, ''lunch''), (7, ''party'')]"
    by code_simp
  from gather_hot_conversations_first_only [OF ne, of sample_env alice] keys ne
  show ?thesis by auto
qed

text \<open>
  Claim C2 asks for as many records as there are selected conversations, and for the
  empty list when there is none. The code, evaluated: two conversations give one
  record, and no conversation gives \<open>None\<close>, not the empty list.
\<close>

theorem gather_hot_conversations_short:
  "card (conversation_key ` set two_conversations) = 2 \<and>
   map_option length (gather_hot_conversations sample_env alice two_conversations) = Some 1 \<and>
   gather_hot_conversations sample_env alice [] = None"
proof -
  have "card (conversation_key ` set two_conversations) = 2" by code_simp
  moreover have "hot_conversation_keys (key_slot sample_env) two_conversations =
     [(7, ''lunch''), (8, ''outage'')]" by code_simp
  moreover have "hot_conversation_keys (key_slot sample_env) [] = []" by code_simp
  ultimately show ?thesis by (simp add: gather_hot_conversations_def)
qed

section \<open>The remaining count of a teaser\<close>

lemma teaser_filter:
  "(\<lambda>um. type_id (recipient (message um)) = fst h \<and> subject (message um) = snd h) =
   (\<lambda>um. conversation_key um = h)"
  by (auto simp: conversation_key_def prod_eq_iff)

lemma count_teaser:
  "count (teaser env user msgs h) = int (message_count msgs h) - int (min 2 (message_count msgs h))"
  by (simp add: teaser_def Let_def teaser_filter get_conversation_length message_count_def min.commute)

text \<open>
  Claim C10. The \<open>count\<close> field of the record built for any conversation key is
  the number of its messages less the number of teaser messages, which is at most 2 and
  at most that number: it is never negative. So it is in every record that
  \<open>gather_hot_conversations\<close> returns.
\<close>

theorem teaser_count_nonneg:
  "count (teaser env user msgs h) = int (message_count msgs h) - int (min 2 (message_count msgs h))
   \<and> 0 \<le> count (teaser env user msgs h)
   \<and> (\<forall>payloads. gather_hot_conversations env user msgs = Some payloads \<longrightarrow>
        (\<forall>r \<in> set payloads. 0 \<le> count r))"
proof -
  have nonneg: "0 \<le> count (teaser env user msgs k)" for k
    by (simp add: count_teaser)
  have "\<forall>r \<in> set payloads. 0 \<le> count r"
    if "gather_hot_conversations env user msgs = Some payloads" for payloads
    using that nonneg
    by (cases "hot_conversation_keys (key_slot env) msgs")
       (auto simp: gather_hot_conversations_def)
  then show ?thesis using nonneg count_teaser by blast
qed

text \<open>An instance of C10: a conversation of one message and one of three.\<close>

theorem teaser_count_nonneg_witness:
  "gather_hot_conversations sample_env alice two_conversations =
     Some [teaser sample_env alice two_conversations (7, ''lunch'')]
   \<and> count (teaser sample_env alice two_conversations (7, ''lunch'')) = 0
   \<and> count (teaser sample_env alice five_conversations (7, ''lunch'')) = 1"
proof -
  have keys: "hot_conversation_keys (key_slot sample_env) two_conversations =
     [(7, ''lunch''), (8, ''outage'')]" by code_simp
  have m2: "message_count two_conversations (7, ''lunch'') = 1" by code_simp
  have m5: "message_count five_conversations (7, ''lunch'') = 3" by code_simp
  from teaser_count_nonneg [of sample_env alice two_conversations "(7, ''lunch'')"]
    teaser_count_nonneg [of sample_env alice five_conversations "(7, ''lunch'')"]
  show ?thesis
    by (simp add: gather_hot_conversations_def keys m2 m5)
qed

section \<open>The traffic gate\<close>

text \<open>
  Claim C4. \<open>enough_traffic\<close> is a boolean function of its four arguments: it is
  true if there are unread direct messages or any hot conversation; otherwise it is
  true if there are new channels and new users; otherwise it is false. A hot
  conversation is present when the second argument is a list that is not empty. The
  four instances of the specification follow.
\<close>

theorem enough_traffic_rule:
  "enough_traffic (unread :: 'a list) (hot :: 'b list option) streams_count users_count =
     (unread \<noteq> [] \<or> truthy hot \<or> (streams_count \<noteq> 0 \<and> users_count \<noteq> 0))
   \<and> truthy hot = (\<exists>h hs. hot = Some (h # hs))
   \<and> enough_traffic [x :: 'a] (Some ([] :: 'b list)) 0 0 = True
   \<and> enough_traffic ([] :: 'a list) (Some ([] :: 'b list)) 3 2 = True
   \<and> enough_traffic ([] :: 'a list) (Some ([] :: 'b list)) 3 0 = False
   \<and> enough_traffic ([] :: 'a list) (Some ([] :: 'b list)) 0 0 = False"
  by (auto simp: enough_traffic_def truthy_def neq_Nil_conv split: option.splits)

text \<open>
  Instances of C4 with \<^verbatim>\<open>None\<close> for the hot conversations, which is what
  \<open>gather_hot_conversations\<close> gives when there is no conversation.
\<close>

theorem enough_traffic_rule_witness:
  "enough_traffic ''x'' (None :: nat list option) 0 0 = True
   \<and> enough_traffic ([] :: char list) (Some [[1 :: nat]]) 0 0 = True
   \<and> enough_traffic ([] :: char list) (None :: nat list list option) 0 7 = False"
  using enough_traffic_rule [of "''x''" "None :: nat list option" 0 0 "CHR ''x''"]
    enough_traffic_rule [of "[] :: char list" "Some [[1 :: nat]]" 0 0 "CHR ''x''"]
    enough_traffic_rule [of "[] :: char list" "None :: nat list list option" 0 7 "CHR ''x''"]
  by (simp add: truthy_def)

section \<open>The gatherers\<close>

lemma gather_new_streams_lists:
  "foldl (\<lambda>acc s. (fst acc @ [f s], snd acc @ [g s])) ([], []) xs = (map f xs, map g xs)"
  by (induction xs rule: rev_induct) simp_all

text \<open>
  Claim C5. For every store, user and cutoff, \<open>gather_new_users\<close> returns the number
  and the names of the rows of its query, and these rows are exactly the users of the
  store that are no bots, are of the user's realm and joined strictly after the cutoff;
  \<open>gather_new_streams\<close> returns the number, the links and the names of the rows of
  its query, which are exactly the channels of the user's realm created strictly after
  the cutoff. So no row at or before the cutoff, or of another realm, is included.
\<close>

theorem gatherers_strictly_after_cutoff:
  "gather_new_users st user cutoff =
     (length (new_users_query st user cutoff), map full_name (new_users_query st user cutoff))
   \<and> (\<forall>u. u \<in> set (new_users_query st user cutoff) \<longleftrightarrow>
          u \<in> set (user_profiles st) \<and> up_realm u = up_realm user \<and> cutoff < date_joined u \<and> \<not> is_bot u)
   \<and> gather_new_streams env st user cutoff =
     (length (new_streams_query st user cutoff),
      \<lparr>html = map (stream_link env) (new_streams_query st user cutoff),
       plain = map stream_name (new_streams_query st user cutoff)\<rparr>)
   \<and> (\<forall>s. s \<in> set (new_streams_query st user cutoff) \<longleftrightarrow>
          s \<in> set (streams st) \<and> stream_realm s = up_realm user \<and> cutoff < date_created s)"
  by (auto simp: gather_new_users_def gather_new_streams_def Let_def gather_new_streams_lists
      new_users_query_def new_streams_query_def)

text \<open>
  An instance of C5: at cutoff 1000 bob (joined at 2000) is the one new user; carol
  (joined at 1000 exactly), the bot and the user of the other realm are left out, and
  so are the channel created at 1000 and the channel of the other realm.
\<close>

theorem gatherers_strictly_after_cutoff_witness:
  "gather_new_users busy_store alice 1000 = (1, [''Bob''])
   \<and> carol \<notin> set (new_users_query busy_store alice 1000)
   \<and> robot \<notin> set (new_users_query busy_store alice 1000)
   \<and> mallory \<notin> set (new_users_query busy_store alice 1000)
   \<and> fst (gather_new_streams sample_env busy_store alice 1000) = 1
   \<and> plain (snd (gather_new_streams sample_env busy_store alice 1000)) = [''ops'']"
proof -
  have q: "new_users_query busy_store alice 1000 = [bob]" by code_simp
  have s: "map stream_name (new_streams_query busy_store alice 1000) = [''ops'']" by code_simp
  have l: "length (new_streams_query busy_store alice 1000) = 1"
    using arg_cong [OF s, of length] by simp
  have c: "date_joined carol = 1000" "is_bot robot" "up_realm mallory \<noteq> up_realm alice"
    by (simp_all add: carol_def robot_def mallory_def alice_def)
  from gatherers_strictly_after_cutoff [of busy_store alice 1000 sample_env] c
  show ?thesis by (simp add: q s l bob_def)
qed

section \<open>The orchestrator\<close>

text \<open>
  Claim C6. The payload field \<open>remaining_unread_pms_count\<close> is the smaller of 0 and
  the number of direct messages in the window less 4: it is never positive.
\<close>

theorem remaining_unread_pms_count_never_positive:
  "remaining_unread_pms_count (template_payload env st user cutoff) =
     min 0 (int (length (pms st user cutoff)) - 4)
   \<and> remaining_unread_pms_count (template_payload env st user cutoff) \<le> 0"
  by (simp add: template_payload_def)

text \<open>
  An instance of C6: five direct messages, four of them previewed, and a remaining
  count of 0.
\<close>

theorem remaining_unread_pms_count_never_positive_witness:
  "length (pms busy_store alice 1000) = 5
   \<and> remaining_unread_pms_count (template_payload sample_env busy_store alice 1000) = 0"
proof -
  have "length (pms busy_store alice 1000) = 5" by code_simp
  with remaining_unread_pms_count_never_positive [of sample_env busy_store alice 1000]
  show ?thesis by simp
qed

lemma handle_digest_email_returns:
  assumes "objects_get (store w) uid = Inr user"
    and "py_int c = Inr seconds"
    and "utcfromtimestamp seconds = Inr cutoff"
  shows "handle_digest_email env w uid c =
           (Inr (),
            if enough_traffic (unread_pms (template_payload env (store w) user cutoff))
                 (hot_conversations (template_payload env (store w) user cutoff))
                 (fst (gather_new_streams env (store w) user cutoff))
                 (fst (gather_new_users (store w) user cutoff))
            then w\<lparr>outbox := outbox w @ [digest_email env (store w) user cutoff]\<rparr>
            else w)"
  using assms by (simp add: handle_digest_email_def Let_def send_future_email_def)

lemma busy_world_traffic:
  "enough_traffic (unread_pms (template_payload sample_env (store busy_world) alice 1000))
     (hot_conversations (template_payload sample_env (store busy_world) alice 1000))
     (fst (gather_new_streams sample_env (store busy_world) alice 1000))
     (fst (gather_new_users (store busy_world) alice 1000))"
  by code_simp

text \<open>
  Claim C7. When the user resolves and the cutoff converts, the call returns, and it
  hands the rendered email to the delivery collaborator if and only if
  \<open>enough_traffic\<close> is true of the assembled signals: the outbox grows by that one
  email, or the world is left as it was. The email has delay zero, the fixed sender,
  the fixed subject line and the tag of digest emails. In particular, with no direct
  message and no channel message in the window, no new channel and no new user, nothing
  is sent, given that \<open>build_message_list\<close> makes no block out of no message.
\<close>

theorem handle_digest_email_sends_iff_enough_traffic:
  assumes "objects_get (store w) uid = Inr user"
    and "py_int c = Inr seconds"
    and "utcfromtimestamp seconds = Inr cutoff"
  shows "handle_digest_email env w uid c =
           (Inr (),
            if enough_traffic (unread_pms (template_payload env (store w) user cutoff))
                 (hot_conversations (template_payload env (store w) user cutoff))
                 (fst (gather_new_streams env (store w) user cutoff))
                 (fst (gather_new_users (store w) user cutoff))
            then w\<lparr>outbox := outbox w @ [digest_email env (store w) user cutoff]\<rparr>
            else w)
         \<and> delay (digest_email env (store w) user cutoff) = 0
         \<and> email_sender (digest_email env (store w) user cutoff) =
             \<lparr>addr_email = ''support@zulip.com'', addr_name = ''Zulip Support''\<rparr>
         \<and> email_subject (digest_email env (store w) user cutoff) =
             ''While you'' @ [CHR 0x27] @ ''ve been gone: the Zulip Digest''
         \<and> tags (digest_email env (store w) user cutoff) = [''digest-emails'']
         \<and> (pms (store w) user cutoff = [] \<and> stream_messages (store w) user cutoff = [] \<and>
            new_streams_query (store w) user cutoff = [] \<and>
            new_users_query (store w) user cutoff = [] \<and>
            build_message_list env user [] = [] \<longrightarrow>
            handle_digest_email env w uid c = (Inr (), w))"
proof -
  have run: "handle_digest_email env w uid c =
           (Inr (),
            if enough_traffic (unread_pms (template_payload env (store w) user cutoff))
                 (hot_conversations (template_payload env (store w) user cutoff))
                 (fst (gather_new_streams env (store w) user cutoff))
                 (fst (gather_new_users (store w) user cutoff))
            then w\<lparr>outbox := outbox w @ [digest_email env (store w) user cutoff]\<rparr>
            else w)"
    using assms by (rule handle_digest_email_returns)
  have email: "delay (digest_email env (store w) user cutoff) = 0"
    "email_sender (digest_email env (store w) user cutoff) =
       \<lparr>addr_email = ''support@zulip.com'', addr_name = ''Zulip Support''\<rparr>"
    "email_subject (digest_email env (store w) user cutoff) =
       ''While you'' @ [CHR 0x27] @ ''ve been gone: the Zulip Digest''"
    "tags (digest_email env (store w) user cutoff) = [''digest-emails'']"
    by (simp_all add: digest_email_def Let_def)
  have quiet: "handle_digest_email env w uid c = (Inr (), w)"
    if "pms (store w) user cutoff = []" "stream_messages (store w) user cutoff = []"
      "new_streams_query (store w) user cutoff = []"
      "new_users_query (store w) user cutoff = []" "build_message_list env user [] = []"
  proof -
    have "hot_conversation_keys (key_slot env) [] = []"
      by (simp add: hot_conversation_keys_def diversity_list_def length_list_def
          conversation_diversity_Nil conversation_length_Nil dict_items_def sort_reverse_def)
    then have "hot_conversations (template_payload env (store w) user cutoff) = None"
      using that(2) by (simp add: template_payload_def gather_hot_conversations_def)
    moreover have "unread_pms (template_payload env (store w) user cutoff) = []"
      using that(1,5) by (simp add: template_payload_def)
    moreover have "fst (gather_new_streams env (store w) user cutoff) = 0"
      using that(3) by (simp add: gather_new_streams_def)
    moreover have "fst (gather_new_users (store w) user cutoff) = 0"
      using that(4) by (simp add: gather_new_users_def)
    ultimately show ?thesis
      unfolding run by (simp add: enough_traffic_def truthy_def)
  qed
  show ?thesis using run email quiet by blast
qed

text \<open>
  Instances of C7: in the quiet realm nothing is sent; in the busy one the outbox, empty
  before, holds the digest.
\<close>

theorem handle_digest_email_sends_iff_enough_traffic_witness:
  "handle_digest_email sample_env quiet_world 1 (PyStr ''1000'') = (Inr (), quiet_world)
   \<and> handle_digest_email sample_env busy_world 1 (PyStr ''1000'') =
       (Inr (), busy_world\<lparr>outbox := [digest_email sample_env busy_store alice 1000]\<rparr>)"
proof -
  have q1: "objects_get (store quiet_world) 1 = Inr alice" by code_simp
  have b1: "objects_get (store busy_world) 1 = Inr alice" by code_simp
  have c: "py_int (PyStr ''1000'') = Inr 1000" by code_simp
  have t: "utcfromtimestamp 1000 = Inr 1000" by (simp add: utcfromtimestamp_def)
  have quiet: "pms (store quiet_world) alice 1000 = []"
    "stream_messages (store quiet_world) alice 1000 = []"
    "new_streams_query (store quiet_world) alice 1000 = []"
    "new_users_query (store quiet_world) alice 1000 = []"
    "build_message_list sample_env alice [] = []"
    by code_simp+
  note busy = busy_world_traffic
  have s: "store busy_world = busy_store" "outbox busy_world = []"
    by (simp_all add: busy_world_def)
  have "handle_digest_email sample_env quiet_world 1 (PyStr ''1000'') = (Inr (), quiet_world)"
    using handle_digest_email_sends_iff_enough_traffic [OF q1 c t, of sample_env] quiet
    by blast
  moreover
  have "handle_digest_email sample_env busy_world 1 (PyStr ''1000'') =
       (Inr (), busy_world\<lparr>outbox := [digest_email sample_env busy_store alice 1000]\<rparr>)"
    using handle_digest_email_sends_iff_enough_traffic [OF b1 c t, of sample_env] busy
    by (simp only: s if_True append_Nil)
  ultimately show ?thesis by (rule conjI)
qed

lemma div_bounds:
  fixes a d :: int
  assumes "0 \<le> a" "0 < d"
  shows "0 \<le> a div d" "a div d * d \<le> a" "a < (a div d + 1) * d"
proof -
  show "0 \<le> a div d" using assms by (simp add: pos_imp_zdiv_nonneg_iff)
  have eq: "a div d * d + a mod d = a" by (rule div_mult_mod_eq)
  have md: "0 \<le> a mod d" "a mod d < d" using assms(2) by simp_all
  show "a div d * d \<le> a" using eq md by linarith
  have "(a div d + 1) * d = a div d * d + d" by (simp add: algebra_simps)
  then show "a < (a div d + 1) * d" using eq md by linarith
qed

lemma float_trunc_toward_zero:
  "(0 \<le> ex \<longrightarrow> float_trunc m ex = m * 2 ^ nat ex) \<and>
   (ex < 0 \<longrightarrow>
      \<bar>float_trunc m ex\<bar> * 2 ^ nat (- ex) \<le> \<bar>m\<bar> \<and>
      \<bar>m\<bar> < (\<bar>float_trunc m ex\<bar> + 1) * 2 ^ nat (- ex) \<and>
      (0 \<le> m \<longrightarrow> 0 \<le> float_trunc m ex) \<and>
      (m \<le> 0 \<longrightarrow> float_trunc m ex \<le> 0))"
proof -
  let ?d = "(2 :: int) ^ nat (- ex)"
  have d: "0 < ?d" by simp
  have pos: "\<bar>float_trunc m ex\<bar> * ?d \<le> \<bar>m\<bar> \<and> \<bar>m\<bar> < (\<bar>float_trunc m ex\<bar> + 1) * ?d \<and>
             (0 \<le> m \<longrightarrow> 0 \<le> float_trunc m ex) \<and> (m \<le> 0 \<longrightarrow> float_trunc m ex \<le> 0)"
    if neg: "ex < 0"
  proof (cases "0 \<le> m")
    case True
    have t: "float_trunc m ex = m div ?d" using neg True by (simp add: float_trunc_def)
    from div_bounds [OF True d] True show ?thesis unfolding t by simp
  next
    case False
    then have m: "0 \<le> - m" by simp
    have t: "float_trunc m ex = - ((- m) div ?d)" using neg False by (simp add: float_trunc_def)
    from div_bounds [OF m d] False show ?thesis unfolding t by simp
  qed
  have "0 \<le> ex \<longrightarrow> float_trunc m ex = m * 2 ^ nat ex"
    by (simp add: float_trunc_def)
  with pos show ?thesis by blast
qed

lemma utcfromtimestamp_fails:
  "utcfromtimestamp n = Inl e \<longleftrightarrow>
     (2 ^ 1024 - 2 ^ 970 \<le> \<bar>n\<bar> \<and> e = OverflowError) \<or>
     (\<bar>n\<bar> < 2 ^ 1024 - 2 ^ 970 \<and> (n < - 62135596800 \<or> 253402300799 < n) \<and> e = ValueError)"
  unfolding utcfromtimestamp_def by (auto simp del: power_numeral)

lemma py_int_fails:
  "py_int c = Inl e \<longleftrightarrow>
        (\<exists>s. c = PyStr s \<and> int_literal s = None \<and> e = ValueError) \<or>
        (c = PyNone \<and> e = TypeError) \<or> (c = PyNaN \<and> e = ValueError) \<or>
        (c = PyInf \<and> e = OverflowError)"
  by (cases c) (auto simp: py_int_def split: option.splits)

lemma handle_digest_email_raises:
  "fst (handle_digest_email env w uid c) = Inl e \<Longrightarrow> snd (handle_digest_email env w uid c) = w"
  by (auto simp: handle_digest_email_def Let_def split: sum.splits if_splits)

lemma handle_digest_email_returns_iff:
  "fst (handle_digest_email env w uid c) = Inr () \<longleftrightarrow>
     (\<exists>user n t. objects_get (store w) uid = Inr user \<and> py_int c = Inr n \<and>
        utcfromtimestamp n = Inr t)"
  by (auto simp: handle_digest_email_def Let_def split: sum.splits if_splits)

text \<open>
  Claim C8 says that a cutoff that is not an integer makes the conversion fail. A float
  cutoff is a counterexample: 1000.5 is not an integer, \<^verbatim>\<open>int\<close> truncates it to
  1000, no conversion fails, the call returns and the digest is sent.
\<close>

theorem handle_digest_email_cutoff_counterexample:
  "py_int (PyFloat 2001 (- 1)) = Inr 1000
   \<and> handle_digest_email sample_env busy_world 1 (PyFloat 2001 (- 1)) =
     (Inr (), busy_world\<lparr>outbox := [digest_email sample_env busy_store alice 1000]\<rparr>)"
proof -
  have c: "py_int (PyFloat 2001 (- 1)) = Inr 1000" by code_simp
  have u: "objects_get (store busy_world) 1 = Inr alice" by code_simp
  have t: "utcfromtimestamp 1000 = Inr 1000" by (simp add: utcfromtimestamp_def)
  have s: "store busy_world = busy_store" "outbox busy_world = []"
    by (simp_all add: busy_world_def)
  have "handle_digest_email sample_env busy_world 1 (PyFloat 2001 (- 1)) =
       (Inr (), busy_world\<lparr>outbox := [digest_email sample_env busy_store alice 1000]\<rparr>)"
    using handle_digest_email_returns [OF u c t, of sample_env] busy_world_traffic
    by (simp only: s if_True append_Nil)
  with c show ?thesis by (rule conjI)
qed

text \<open>
  Claim C8, amended. No error is recovered locally. If the user identifier matches no
  user, the lookup failure reaches the caller. If the user resolves and the conversion
  of the cutoff at line 113 fails, in \<^verbatim>\<open>int\<close> or in \<^verbatim>\<open>utcfromtimestamp\<close>,
  that failure reaches the caller. \<^verbatim>\<open>int\<close> fails for exactly these cutoffs: a
  string that is no integer literal, \<^verbatim>\<open>None\<close>, a NaN and an infinity;
  \<^verbatim>\<open>utcfromtimestamp\<close> fails for exactly the integers outside its range. Whenever
  the call raises, the world is left as it was: no email is sent; and the call returns
  only if the lookup and both steps of the conversion succeed. \<^verbatim>\<open>int\<close> never
  rejects a finite float: its value is the float truncated toward zero, and the call
  goes on with that integer.
\<close>

theorem handle_digest_email_errors_propagate:
  "(objects_get (store w) uid = Inl e \<longrightarrow> handle_digest_email env w uid c = (Inl e, w))
   \<and> (uid \<notin> up_id ` set (user_profiles (store w)) \<longrightarrow>
        handle_digest_email env w uid c = (Inl DoesNotExist, w))
   \<and> (objects_get (store w) uid = Inr user \<and> py_int c = Inl e \<longrightarrow>
        handle_digest_email env w uid c = (Inl e, w))
   \<and> (objects_get (store w) uid = Inr user \<and> py_int c = Inr n \<and> utcfromtimestamp n = Inl e \<longrightarrow>
        handle_digest_email env w uid c = (Inl e, w))
   \<and> (py_int c = Inl e \<longleftrightarrow>
        (\<exists>s. c = PyStr s \<and> int_literal s = None \<and> e = ValueError) \<or>
        (c = PyNone \<and> e = TypeError) \<or> (c = PyNaN \<and> e = ValueError) \<or>
        (c = PyInf \<and> e = OverflowError))
   \<and> (utcfromtimestamp n = Inl e \<longleftrightarrow>
        (2 ^ 1024 - 2 ^ 970 \<le> \<bar>n\<bar> \<and> e = OverflowError) \<or>
        (\<bar>n\<bar> < 2 ^ 1024 - 2 ^ 970 \<and> (n < - 62135596800 \<or> 253402300799 < n) \<and>
         e = ValueError))
   \<and> (fst (handle_digest_email env w uid c) = Inl e \<longrightarrow>
        snd (handle_digest_email env w uid c) = w)
   \<and> (fst (handle_digest_email env w uid c) = Inr () \<longleftrightarrow>
        (\<exists>user' n' t. objects_get (store w) uid = Inr user' \<and> py_int c = Inr n' \<and>
           utcfromtimestamp n' = Inr t))
   \<and> py_int (PyFloat m ex) = Inr (float_trunc m ex)
   \<and> (0 \<le> ex \<longrightarrow> float_trunc m ex = m * 2 ^ nat ex)
   \<and> (ex < 0 \<longrightarrow>
        \<bar>float_trunc m ex\<bar> * 2 ^ nat (- ex) \<le> \<bar>m\<bar> \<and>
        \<bar>m\<bar> < (\<bar>float_trunc m ex\<bar> + 1) * 2 ^ nat (- ex) \<and>
        (0 \<le> m \<longrightarrow> 0 \<le> float_trunc m ex) \<and>
        (m \<le> 0 \<longrightarrow> float_trunc m ex \<le> 0))"
proof -
  have missing: "objects_get (store w) uid = Inl DoesNotExist"
    if "uid \<notin> up_id ` set (user_profiles (store w))"
  proof -
    from that have "filter (\<lambda>u. up_id u = uid) (user_profiles (store w)) = []"
      by (auto simp: filter_empty_conv)
    then show ?thesis by (simp add: objects_get_def)
  qed
  have 1: "objects_get (store w) uid = Inl e \<longrightarrow> handle_digest_email env w uid c = (Inl e, w)"
    by (simp add: handle_digest_email_def)
  have 2: "uid \<notin> up_id ` set (user_profiles (store w)) \<longrightarrow>
        handle_digest_email env w uid c = (Inl DoesNotExist, w)"
    using missing by (simp add: handle_digest_email_def)
  have 3: "objects_get (store w) uid = Inr user \<and> py_int c = Inl e \<longrightarrow>
        handle_digest_email env w uid c = (Inl e, w)"
    by (simp add: handle_digest_email_def)
  have 4: "objects_get (store w) uid = Inr user \<and> py_int c = Inr n \<and> utcfromtimestamp n = Inl e \<longrightarrow>
        handle_digest_email env w uid c = (Inl e, w)"
    by (simp add: handle_digest_email_def)
  have 7: "fst (handle_digest_email env w uid c) = Inl e \<longrightarrow>
        snd (handle_digest_email env w uid c) = w"
    using handle_digest_email_raises [of env w uid c e] by blast
  have 9: "py_int (PyFloat m ex) = Inr (float_trunc m ex)"
    by (simp add: py_int_def)
  show ?thesis
    using 1 2 3 4 py_int_fails [of c e] utcfromtimestamp_fails [of n e] 7
      handle_digest_email_returns_iff [of env w uid c] 9
      float_trunc_toward_zero [of ex m, THEN conjunct1]
      float_trunc_toward_zero [of ex m, THEN conjunct2]
    by (intro conjI) assumption+
qed

text \<open>
  Instances of C8: an unknown user identifier; the cutoffs \<^verbatim>\<open>"12.5"\<close> and
  \<^verbatim>\<open>None\<close>, which \<^verbatim>\<open>int\<close> rejects; the cutoffs
  \<^verbatim>\<open>"99999999999999"\<close> and 300000000000.5, which \<^verbatim>\<open>int\<close> converts (the
  float by truncation) and \<^verbatim>\<open>utcfromtimestamp\<close> rejects; and the truncation of
  a negative float, -1000.5, to -1000.
\<close>

theorem handle_digest_email_errors_propagate_witness:
  "handle_digest_email sample_env busy_world 9 (PyStr ''1000'') = (Inl DoesNotExist, busy_world)
   \<and> handle_digest_email sample_env busy_world 1 (PyStr ''12.5'') = (Inl ValueError, busy_world)
   \<and> handle_digest_email sample_env busy_world 1 PyNone = (Inl TypeError, busy_world)
   \<and> handle_digest_email sample_env busy_world 1 (PyStr ''99999999999999'') =
       (Inl ValueError, busy_world)
   \<and> py_int (PyFloat 600000000001 (- 1)) = Inr 300000000000
   \<and> handle_digest_email sample_env busy_world 1 (PyFloat 600000000001 (- 1)) =
       (Inl ValueError, busy_world)
   \<and> py_int (PyFloat (- 2001) (- 1)) = Inr (- 1000)"
proof -
  have u9: "9 \<notin> up_id ` set (user_profiles (store busy_world))" by code_simp
  have u1: "objects_get (store busy_world) 1 = Inr alice" by code_simp
  have bad: "int_literal ''12.5'' = None" by code_simp
  have big: "py_int (PyStr ''99999999999999'') = Inr 99999999999999" by code_simp
  have r1: "utcfromtimestamp 99999999999999 = Inl ValueError" by code_simp
  have r2: "utcfromtimestamp 300000000000 = Inl ValueError" by code_simp
  have f1: "float_trunc 600000000001 (- 1) = 300000000000" by code_simp
  have f2: "float_trunc (- 2001) (- 1) = - 1000" by code_simp
  note a = handle_digest_email_errors_propagate
             [of busy_world 9 DoesNotExist sample_env "PyStr ''1000''" alice 0 0 0]
  note b = handle_digest_email_errors_propagate
             [of busy_world 1 ValueError sample_env "PyStr ''12.5''" alice 0 0 0]
  note c = handle_digest_email_errors_propagate
             [of busy_world 1 TypeError sample_env PyNone alice 0 0 0]
  note d = handle_digest_email_errors_propagate
             [of busy_world 1 ValueError sample_env "PyStr ''99999999999999''" alice
                 99999999999999 0 0]
  note e = handle_digest_email_errors_propagate
             [of busy_world 1 ValueError sample_env "PyFloat 600000000001 (- 1)" alice
                 300000000000 600000000001 "- 1"]
  note f = handle_digest_email_errors_propagate
             [of busy_world 1 ValueError sample_env PyNone alice 0 "- 2001" "- 1"]
  have A: "handle_digest_email sample_env busy_world 9 (PyStr ''1000'') =
             (Inl DoesNotExist, busy_world)"
    using a u9 by blast
  have B: "handle_digest_email sample_env busy_world 1 (PyStr ''12.5'') =
             (Inl ValueError, busy_world)"
    using b u1 bad by blast
  have C: "handle_digest_email sample_env busy_world 1 PyNone = (Inl TypeError, busy_world)"
    using c u1 by blast
  have D: "handle_digest_email sample_env busy_world 1 (PyStr ''99999999999999'') =
             (Inl ValueError, busy_world)"
    using d u1 big r1 by blast
  have E1: "py_int (PyFloat 600000000001 (- 1)) = Inr 300000000000"
    using e f1 by simp
  have E: "handle_digest_email sample_env busy_world 1 (PyFloat 600000000001 (- 1)) =
             (Inl ValueError, busy_world)"
    using e u1 E1 r2 by blast
  have F: "py_int (PyFloat (- 2001) (- 1)) = Inr (- 1000)"
    using f f2 by simp
  from A B C D E1 E F show ?thesis by blast
qed

text \<open>
  Claim C9. For every store, user identifier and cutoff, \<open>handle_digest_email\<close>
  leaves the store as it found it, whether it returns or raises; the one effect is
  that the outbox of the delivery collaborator may grow by one email, on a plain
  return. The operations it calls, \<open>gather_hot_conversations\<close>,
  \<open>gather_new_users\<close>, \<open>gather_new_streams\<close> and \<open>enough_traffic\<close>, read the
  store or their arguments and give a value: there is no store after them but the one
  before.
\<close>

theorem handle_digest_email_store_unchanged:
  "store (snd (handle_digest_email env w uid c)) = store w
   \<and> (outbox (snd (handle_digest_email env w uid c)) = outbox w
      \<or> (\<exists>e. fst (handle_digest_email env w uid c) = Inr () \<and>
              outbox (snd (handle_digest_email env w uid c)) = outbox w @ [e]))"
  by (auto simp: handle_digest_email_def Let_def send_future_email_def
      split: sum.splits)

text \<open>Instances of C9: a call that sends and a call that raises.\<close>

theorem handle_digest_email_store_unchanged_witness:
  "store (snd (handle_digest_email sample_env busy_world 1 (PyStr ''1000''))) = busy_store
   \<and> store (snd (handle_digest_email sample_env busy_world 9 (PyStr ''1000''))) = busy_store"
  using handle_digest_email_store_unchanged [of sample_env busy_world 1 "PyStr ''1000''"]
    handle_digest_email_store_unchanged [of sample_env busy_world 9 "PyStr ''1000''"]
  by (simp add: busy_world_def)

end
